theory Spec2Isabelle
  imports Main "HOL-Library.AList"
begin

section \<open>JavaScript values\<close>

text \<open>
  A decoded response body is a JavaScript value. Objects are association lists in key
  order; a property read takes the entry \<open>map_of\<close> finds. A text body is the value
  \<open>JStr\<close>. Numbers are modelled as integers.
\<close>

datatype json =
    JNull
  | JBool bool
  | JNum int
  | JStr string
  | JArr "json list"
  | JObj "(string \<times> json) list"

text \<open>\<^verbatim>\<open>Array.isArray(v)\<close>\<close>

fun isArray :: "json \<Rightarrow> bool" where
  "isArray (JArr xs) = True"
| "isArray v = False"

text \<open>JavaScript truthiness of a value, as \<^verbatim>\<open>a && b\<close> tests it.\<close>

fun truthy :: "json \<Rightarrow> bool" where
  "truthy JNull = False"
| "truthy (JBool b) = b"
| "truthy (JNum n) = (n \<noteq> 0)"
| "truthy (JStr s) = (s \<noteq> [])"
| "truthy (JArr xs) = True"
| "truthy (JObj kvs) = True"

text \<open>\<^verbatim>\<open>key in value\<close> for a value that passed the \<^verbatim>\<open>typeof value === 'object'\<close> test.\<close>

fun has_property :: "string \<Rightarrow> json \<Rightarrow> bool" where
  "has_property k (JObj kvs) = (k \<in> fst ` set kvs)"
| "has_property k v = False"

text \<open>\<^verbatim>\<open>value.key\<close>; \<open>None\<close> is \<^verbatim>\<open>undefined\<close>.\<close>

fun get_property :: "string \<Rightarrow> json \<Rightarrow> json option" where
  "get_property k (JObj kvs) = map_of kvs k"
| "get_property k v = None"

text \<open>\<^verbatim>\<open>typeof value === 'object' && value !== null\<close>\<close>

fun is_object :: "json \<Rightarrow> bool" where
  "is_object (JArr xs) = True"
| "is_object (JObj kvs) = True"
| "is_object v = False"

section \<open>Response normalizer (sdk.ts)\<close>

definition isApiArrayResponse :: "json \<Rightarrow> bool" where
  "isApiArrayResponse v \<longleftrightarrow>
     is_object v \<and> (has_property ''results'' v \<or> has_property ''result'' v)"

text \<open>\<^verbatim>\<open>response.results && Array.isArray(response.results)\<close>\<close>

definition array_property :: "string \<Rightarrow> json \<Rightarrow> json option" where
  "array_property k v =
     (case get_property k v of
        None \<Rightarrow> None
      | Some r \<Rightarrow> if truthy r \<and> isArray r then Some r else None)"

definition normalizeArrayResponse :: "json \<Rightarrow> json" where
  "normalizeArrayResponse response =
     (if isArray response then response
      else if isApiArrayResponse response then
        (case array_property ''results'' response of
           Some r \<Rightarrow> r
         | None \<Rightarrow>
            (case array_property ''result'' response of
               Some r \<Rightarrow> r
             | None \<Rightarrow> JArr [response]))
      else JArr [response])"

text \<open>
  The rule as the specification words it: an array is returned as it is; otherwise an
  object whose \<open>results\<close> property is an array gives that array; otherwise an object
  whose \<open>result\<close> property is an array gives that one; otherwise the value is wrapped.
\<close>

fun property_is_array :: "string \<Rightarrow> json \<Rightarrow> bool" where
  "property_is_array k (JObj kvs) =
     (case map_of kvs k of Some (JArr xs) \<Rightarrow> True | _ \<Rightarrow> False)"
| "property_is_array k v = False"

fun the_property :: "string \<Rightarrow> json \<Rightarrow> json" where
  "the_property k (JObj kvs) = (case map_of kvs k of Some r \<Rightarrow> r | None \<Rightarrow> JNull)"
| "the_property k v = JNull"

definition normalize_spec :: "json \<Rightarrow> json" where
  "normalize_spec v =
     (if isArray v then v
      else if property_is_array ''results'' v then the_property ''results'' v
      else if property_is_array ''result'' v then the_property ''result'' v
      else JArr [v])"

section \<open>Numbers and strings\<close>

text \<open>
  A string is a list of code units below 256, which is what a header value holds. A
  JavaScript number that \<^verbatim>\<open>parseInt\<close> can return is an integer or \<^verbatim>\<open>NaN\<close>. The
  runtime keeps numbers as doubles: an integer of magnitude up to \<open>2 ^ 53\<close> is kept as
  it is, and a larger one is rounded to 53 significant bits, a tie going to the even
  neighbour. A magnitude of \<open>2 ^ 1024\<close> or more is \<^verbatim>\<open>Infinity\<close> in the runtime, which
  \<open>jsnum\<close> does not hold; the retry delays \<open>retryDelay * 2 ^ attempt\<close> are computed
  as integers, which is what the runtime has while they are at most \<open>2 ^ 53\<close>.
\<close>

datatype jsnum = NaN | Num int

text \<open>The number of binary digits of a positive integer.\<close>

function bit_length :: "int \<Rightarrow> nat" where
  "bit_length n = (if n \<le> 0 then 0 else Suc (bit_length (n div 2)))"
  by pat_completeness auto
termination
  by (relation "measure nat") auto

declare bit_length.simps [simp del]

text \<open>The double nearest to an integer.\<close>

definition to_double :: "int \<Rightarrow> int" where
  "to_double n =
     (if \<bar>n\<bar> \<le> 2 ^ 53 then n
      else (let u = 2 ^ (bit_length \<bar>n\<bar> - 53);
                q = \<bar>n\<bar> div u;
                r = \<bar>n\<bar> mod u;
                q' = (if u < 2 * r \<or> (2 * r = u \<and> odd q) then q + 1 else q)
            in sgn n * (q' * u)))"

text \<open>The product of two numbers, as the runtime rounds it.\<close>

fun jsnum_times :: "jsnum \<Rightarrow> int \<Rightarrow> jsnum" where
  "jsnum_times NaN k = NaN"
| "jsnum_times (Num n) k = Num (to_double (n * k))"

text \<open>
  The white space \<^verbatim>\<open>parseInt\<close> skips, among the code units below 256: space, tab, LF,
  VT, FF, CR and the no-break space.
\<close>

definition is_whitespace :: "char \<Rightarrow> bool" where
  "is_whitespace c \<longleftrightarrow>
     c \<in> set [CHR '' '', CHR 0x09, CHR 0x0A, CHR 0x0B, CHR 0x0C, CHR 0x0D, CHR 0xA0]"

definition is_digit :: "char \<Rightarrow> bool" where
  "is_digit c \<longleftrightarrow> c \<in> set ''0123456789''"

definition digit_value :: "char \<Rightarrow> int" where
  "digit_value c =
     (case map_of (zip ''0123456789'' [0, 1, 2, 3, 4, 5, 6, 7, 8, 9]) c of
        None \<Rightarrow> 0
      | Some d \<Rightarrow> d)"

fun digits_value :: "int \<Rightarrow> string \<Rightarrow> int" where
  "digits_value acc [] = acc"
| "digits_value acc (c # cs) = digits_value (acc * 10 + digit_value c) cs"

text \<open>
  \<^verbatim>\<open>parseInt(s, 10)\<close>: leading white space is skipped, a sign is read, then the longest run
  of decimal digits; the rest of the string is ignored, and no digit at all gives \<^verbatim>\<open>NaN\<close>.
  The result is the double nearest to the integer the digits write.
\<close>

definition parseInt :: "string \<Rightarrow> jsnum" where
  "parseInt s =
     (let t = dropWhile is_whitespace s;
          negative = (t \<noteq> [] \<and> hd t = CHR ''-'');
          u = (if t \<noteq> [] \<and> (hd t = CHR ''-'' \<or> hd t = CHR ''+'') then tl t else t);
          ds = takeWhile is_digit u
      in if ds = [] then NaN
         else Num (to_double (if negative then - digits_value 0 ds else digits_value 0 ds)))"

text \<open>The decimal text of a number, as a template literal prints it.\<close>

definition digit_char :: "nat \<Rightarrow> char" where
  "digit_char d = ''0123456789'' ! (d mod 10)"

fun string_of_nat :: "nat \<Rightarrow> string" where
  "string_of_nat n =
     (if n < 10 then [digit_char n] else string_of_nat (n div 10) @ [digit_char n])"

declare string_of_nat.simps [simp del]

text \<open>\<^verbatim>\<open>s.includes(sub)\<close>\<close>

fun startsWith :: "string \<Rightarrow> string \<Rightarrow> bool" where
  "startsWith s [] = True"
| "startsWith [] (p # ps) = False"
| "startsWith (c # cs) (p # ps) = (c = p \<and> startsWith cs ps)"

fun str_includes :: "string \<Rightarrow> string \<Rightarrow> bool" where
  "str_includes [] sub = (sub = [])"
| "str_includes (c # cs) sub = (startsWith (c # cs) sub \<or> str_includes cs sub)"

section \<open>Error taxonomy (errors.ts)\<close>

text \<open>The error classes; \<open>class_name\<close> is the \<^verbatim>\<open>name\<close> each constructor assigns.\<close>

datatype error_class =
    Crawl4AIError
  | NetworkError
  | TimeoutError
  | RequestValidationError
  | RateLimitError
  | AuthError
  | ServerError
  | NotFoundError
  | ParseError

fun class_name :: "error_class \<Rightarrow> string" where
  "class_name Crawl4AIError = ''Crawl4AIError''"
| "class_name NetworkError = ''NetworkError''"
| "class_name TimeoutError = ''TimeoutError''"
| "class_name RequestValidationError = ''RequestValidationError''"
| "class_name RateLimitError = ''RateLimitError''"
| "class_name AuthError = ''AuthError''"
| "class_name ServerError = ''ServerError''"
| "class_name NotFoundError = ''NotFoundError''"
| "class_name ParseError = ''ParseError''"

text \<open>
  An exception that is not one of the SDK's classes: the constructor it was made with,
  its \<^verbatim>\<open>name\<close> and its \<^verbatim>\<open>message\<close>. \<open>NotAnError\<close> stands for a thrown value that is no
  \<^verbatim>\<open>Error\<close> at all.
\<close>

datatype js_ctor = ErrorC | TypeErrorC | SyntaxErrorC | DOMExceptionC | NotAnError

datatype js_error = JsError js_ctor string string

record request_details =
  req_url :: string
  req_method :: string
  req_headers :: "(string \<times> string) list"
  req_body :: "string option"

text \<open>
  An instance of \<^verbatim>\<open>Crawl4AIError\<close> or of a subclass. An optional field that was never
  assigned is \<open>None\<close>. The field \<open>request_info\<close> is \<^verbatim>\<open>request\<close> and \<open>timeout_ms\<close> is
  \<^verbatim>\<open>timeout\<close> in the source; \<open>reset\<close> is the epoch time of the \<^verbatim>\<open>Date\<close> in milliseconds.
  The fields \<^verbatim>\<open>field\<close>, \<^verbatim>\<open>value\<close>, \<^verbatim>\<open>resource\<close> and \<^verbatim>\<open>responseText\<close> are left out:
  neither \<^verbatim>\<open>createHttpError\<close> nor \<^verbatim>\<open>request\<close> assigns them.
\<close>

record crawl4ai_error =
  name :: error_class
  message :: string
  status :: "nat option"
  statusText :: "string option"
  data :: "json option"
  request_info :: "request_details option"
  cause :: "js_error option"
  timeout_ms :: "nat option"
  retryAfter :: "jsnum option"
  limit :: "jsnum option"
  remaining :: "jsnum option"
  reset :: "jsnum option"

definition new_Crawl4AIError ::
  "string \<Rightarrow> nat option \<Rightarrow> string option \<Rightarrow> json option \<Rightarrow> crawl4ai_error" where
  "new_Crawl4AIError msg st stText d =
     \<lparr> name = Crawl4AIError, message = msg, status = st, statusText = stText, data = d,
       request_info = None, cause = None, timeout_ms = None, retryAfter = None,
       limit = None, remaining = None, reset = None \<rparr>"

definition new_NetworkError :: "string \<Rightarrow> js_error option \<Rightarrow> crawl4ai_error" where
  "new_NetworkError msg c =
     (new_Crawl4AIError msg None None None) \<lparr> name := NetworkError, cause := c \<rparr>"

definition new_TimeoutError :: "nat \<Rightarrow> string option \<Rightarrow> crawl4ai_error" where
  "new_TimeoutError t url =
     (let msg =
        (case url of
           None \<Rightarrow> ''Request timed out after '' @ string_of_nat t @ ''ms''
         | Some u \<Rightarrow>
             if u \<noteq> [] then ''Request to '' @ u @ '' timed out after '' @ string_of_nat t @ ''ms''
             else ''Request timed out after '' @ string_of_nat t @ ''ms'')
      in (new_NetworkError msg None) \<lparr> name := TimeoutError, timeout_ms := Some t \<rparr>)"

definition new_RequestValidationError :: "string \<Rightarrow> crawl4ai_error" where
  "new_RequestValidationError msg =
     (new_Crawl4AIError msg (Some 400) (Some ''Bad Request'') None)
       \<lparr> name := RequestValidationError \<rparr>"

text \<open>\<^verbatim>\<open>headers[k]\<close> when it is truthy: present and not the empty string.\<close>

definition header :: "(string \<times> string) list option \<Rightarrow> string \<Rightarrow> string option" where
  "header headers k =
     (case headers of
        None \<Rightarrow> None
      | Some h \<Rightarrow>
          (case map_of h k of
             None \<Rightarrow> None
           | Some v \<Rightarrow> if v \<noteq> [] then Some v else None))"

definition new_RateLimitError ::
  "string \<Rightarrow> jsnum option \<Rightarrow> (string \<times> string) list option \<Rightarrow> crawl4ai_error" where
  "new_RateLimitError msg ra headers =
     (new_Crawl4AIError msg (Some 429) (Some ''Too Many Requests'') None)
       \<lparr> name := RateLimitError,
         retryAfter := ra,
         limit := map_option parseInt (header headers ''x-ratelimit-limit''),
         remaining := map_option parseInt (header headers ''x-ratelimit-remaining''),
         reset := map_option (\<lambda>v. jsnum_times (parseInt v) 1000)
                    (header headers ''x-ratelimit-reset'') \<rparr>"

definition new_AuthError :: "string \<Rightarrow> nat \<Rightarrow> crawl4ai_error" where
  "new_AuthError msg st =
     (new_Crawl4AIError msg (Some st)
        (Some (if st = 401 then ''Unauthorized'' else ''Forbidden'')) None)
       \<lparr> name := AuthError \<rparr>"

definition new_ServerError :: "string \<Rightarrow> nat \<Rightarrow> string \<Rightarrow> crawl4ai_error" where
  "new_ServerError msg st stText =
     (new_Crawl4AIError msg (Some st)
        (Some (if stText \<noteq> [] then stText else ''Internal Server Error'')) None)
       \<lparr> name := ServerError \<rparr>"

definition new_NotFoundError :: "string option \<Rightarrow> crawl4ai_error" where
  "new_NotFoundError res =
     (let msg =
        (case res of
           None \<Rightarrow> ''Resource not found''
         | Some r \<Rightarrow> if r \<noteq> [] then ''Resource not found: '' @ r else ''Resource not found'')
      in (new_Crawl4AIError msg (Some 404) (Some ''Not Found'') None)
           \<lparr> name := NotFoundError \<rparr>)"

definition createHttpError ::
  "nat \<Rightarrow> string \<Rightarrow> string option \<Rightarrow> json option \<Rightarrow> (string \<times> string) list option
     \<Rightarrow> crawl4ai_error" where
  "createHttpError st stText msg d headers =
     (let fallback = ''HTTP '' @ string_of_nat st @ '': '' @ stText;
          errorMessage =
            (case msg of None \<Rightarrow> fallback | Some m \<Rightarrow> if m \<noteq> [] then m else fallback)
      in if st = 400 then new_RequestValidationError errorMessage
         else if st = 401 then new_AuthError errorMessage 401
         else if st = 403 then new_AuthError errorMessage 403
         else if st = 404 then new_NotFoundError None
         else if st = 429 then
           new_RateLimitError errorMessage
             (map_option parseInt (header headers ''retry-after'')) headers
         else if st = 500 \<or> st = 502 \<or> st = 503 \<or> st = 504 then
           new_ServerError errorMessage st stText
         else new_Crawl4AIError errorMessage (Some st) (Some stText) d)"

section \<open>Transport executor (sdk.ts)\<close>

text \<open>
  The client's configuration after the constructor has filled in the defaults. The
  constructor admits only a non-negative integer for \<open>retries\<close>.
\<close>

record config =
  baseUrl :: string
  apiToken :: string
  timeout :: nat
  retries :: nat
  retryDelay :: int
  defaultHeaders :: "(string \<times> string) list"
  throwOnError :: bool
  validateStatus :: "nat \<Rightarrow> bool"
  debug :: bool

definition CLIENT_ERROR_MIN :: nat where "CLIENT_ERROR_MIN = 400"
definition CLIENT_ERROR_MAX :: nat where "CLIENT_ERROR_MAX = 500"
definition RATE_LIMIT_STATUS :: nat where "RATE_LIMIT_STATUS = 429"
definition RETRY_BACKOFF_MULTIPLIER :: int where "RETRY_BACKOFF_MULTIPLIER = 2"

text \<open>The default status predicate of the constructor.\<close>

definition default_validateStatus :: "nat \<Rightarrow> bool" where
  "default_validateStatus st \<longleftrightarrow> st < CLIENT_ERROR_MIN"

text \<open>
  The options of one call. \<open>opt_signal\<close> tells whether the caller passed an
  \<^verbatim>\<open>AbortSignal\<close>.
\<close>

record request_options =
  opt_timeout :: "nat option"
  opt_signal :: bool
  opt_headers :: "(string \<times> string) list"
  opt_method :: "string option"
  opt_body :: "string option"

text \<open>
  A response as \<^verbatim>\<open>fetch\<close> resolves it. The header names are in lower case, as the
  \<^verbatim>\<open>Headers\<close> object keeps them. \<open>resp_text\<close> is what \<^verbatim>\<open>response.text()\<close> gives and
  \<open>resp_json\<close> what \<^verbatim>\<open>response.json()\<close> gives, \<open>None\<close> when the body is not JSON and
  the call rejects with a \<^verbatim>\<open>SyntaxError\<close>.
\<close>

record response =
  resp_status :: nat
  resp_statusText :: string
  resp_headers :: "(string \<times> string) list"
  resp_text :: string
  resp_json :: "json option"

text \<open>
  What happens while a \<^verbatim>\<open>fetch\<close> is in flight, in the order it happens: the deadline
  timer set by \<^verbatim>\<open>setTimeout\<close> fires, the caller's signal aborts, the server responds,
  or the transport fails with an exception. A \<^verbatim>\<open>fetch\<close> rejects with the abort reason
  of the signal it was given as soon as that signal is aborted; nothing else about the
  runtime is assumed. The controller of \<^verbatim>\<open>request\<close> is aborted with no reason, and its
  reason is then an \<^verbatim>\<open>AbortError\<close>: a \<^verbatim>\<open>DOMException\<close>, which is an \<^verbatim>\<open>Error\<close> in the
  runtimes the package names (Bun and Node.js). The caller's signal has the reason its
  owner gave it, carried by the event: the same \<^verbatim>\<open>AbortError\<close> after \<^verbatim>\<open>abort()\<close>, the
  value \<open>v\<close> after \<^verbatim>\<open>abort(v)\<close>, a \<^verbatim>\<open>DOMException\<close> named \<^verbatim>\<open>TimeoutError\<close> for a
  signal made by \<^verbatim>\<open>AbortSignal.timeout\<close>. A list of events that ends before the call
  settles is a call that stays pending.
\<close>

datatype signal_ref = ControllerSignal | CallerSignal

record abort_state =
  controller_aborted :: bool
  caller_aborted :: bool

datatype fetch_event =
    TimerFires
  | CallerAborts js_error
  | Responds response
  | Fails js_error

datatype fetch_result = Resolved response | Rejected js_error

definition abort_error :: js_error where
  "abort_error = JsError DOMExceptionC ''AbortError'' ''The operation was aborted.''"

fun signal_aborted :: "abort_state \<Rightarrow> signal_ref \<Rightarrow> bool" where
  "signal_aborted st ControllerSignal = controller_aborted st"
| "signal_aborted st CallerSignal = caller_aborted st"

text \<open>The timer's callback is \<^verbatim>\<open>controller.abort()\<close>.\<close>

fun on_event :: "abort_state \<Rightarrow> fetch_event \<Rightarrow> abort_state" where
  "on_event st TimerFires = st \<lparr> controller_aborted := True \<rparr>"
| "on_event st (CallerAborts reason) = st \<lparr> caller_aborted := True \<rparr>"
| "on_event st e = st"

fun fetch :: "signal_ref \<Rightarrow> abort_state \<Rightarrow> fetch_event list \<Rightarrow> fetch_result option" where
  "fetch sig st [] = None"
| "fetch sig st (Responds r # es) = Some (Resolved r)"
| "fetch sig st (Fails e # es) = Some (Rejected e)"
| "fetch sig st (TimerFires # es) =
     (if signal_aborted (on_event st TimerFires) sig then Some (Rejected abort_error)
      else fetch sig (on_event st TimerFires) es)"
| "fetch sig st (CallerAborts reason # es) =
     (if signal_aborted (on_event st (CallerAborts reason)) sig then Some (Rejected reason)
      else fetch sig (on_event st (CallerAborts reason)) es)"

text \<open>
  A value the operation returns: a decoded body or the open response of an event stream;
  \<open>ErrorObject\<close> is an error handed back as a value. What is thrown is an SDK error or
  some other exception.
\<close>

datatype result_value = Decoded json | RawResponse response | ErrorObject crawl4ai_error

datatype thrown = Classified crawl4ai_error | Foreign js_error

datatype outcome = Returned result_value | Thrown thrown

fun instanceof_Error :: "thrown \<Rightarrow> bool" where
  "instanceof_Error (Classified e) = True"
| "instanceof_Error (Foreign (JsError c n m)) = (c \<noteq> NotAnError)"

fun instanceof_TypeError :: "thrown \<Rightarrow> bool" where
  "instanceof_TypeError (Classified e) = False"
| "instanceof_TypeError (Foreign (JsError c n m)) = (c = TypeErrorC)"

fun thrown_name :: "thrown \<Rightarrow> string" where
  "thrown_name (Classified e) = class_name (name e)"
| "thrown_name (Foreign (JsError c n m)) = n"

fun thrown_message :: "thrown \<Rightarrow> string" where
  "thrown_message (Classified e) = message e"
| "thrown_message (Foreign (JsError c n m)) = m"

text \<open>\<^verbatim>\<open>const requestSignal = signal || controller.signal\<close>\<close>

definition requestSignal :: "request_options \<Rightarrow> signal_ref" where
  "requestSignal opts = (if opt_signal opts then CallerSignal else ControllerSignal)"

definition effective_timeout :: "config \<Rightarrow> request_options \<Rightarrow> nat" where
  "effective_timeout cfg opts = (case opt_timeout opts of None \<Rightarrow> timeout cfg | Some t \<Rightarrow> t)"

definition request_url :: "config \<Rightarrow> string \<Rightarrow> string" where
  "request_url cfg endpoint = baseUrl cfg @ endpoint"

definition request_method :: "request_options \<Rightarrow> string" where
  "request_method opts =
     (case opt_method opts of None \<Rightarrow> ''GET'' | Some m \<Rightarrow> if m \<noteq> [] then m else ''GET'')"

text \<open>\<^verbatim>\<open>{ ...this.config.defaultHeaders, ...headers }\<close>\<close>

definition requestHeaders :: "config \<Rightarrow> request_options \<Rightarrow> (string \<times> string) list" where
  "requestHeaders cfg opts = AList.merge (defaultHeaders cfg) (opt_headers opts)"

text \<open>
  The error built when the status predicate rejects the response: \<^verbatim>\<open>createHttpError\<close>
  on the status, the status text, the decoded body and the headers, with the request
  details attached.
\<close>

definition status_error ::
  "config \<Rightarrow> string \<Rightarrow> request_options \<Rightarrow> response \<Rightarrow> json \<Rightarrow> crawl4ai_error" where
  "status_error cfg endpoint opts r responseData =
     (createHttpError (resp_status r) (resp_statusText r) None (Some responseData)
        (Some (resp_headers r)))
       \<lparr> request_info := Some \<lparr> req_url = request_url cfg endpoint,
                                 req_method = request_method opts,
                                 req_headers = requestHeaders cfg opts,
                                 req_body = opt_body opts \<rparr> \<rparr>"

text \<open>
  The status check on the decoded body. The error is thrown when \<open>throwOnError\<close> is
  set; otherwise the function goes on to \<^verbatim>\<open>return responseData\<close>.
\<close>

definition check_status ::
  "config \<Rightarrow> string \<Rightarrow> request_options \<Rightarrow> response \<Rightarrow> json \<Rightarrow> outcome" where
  "check_status cfg endpoint opts r responseData =
     (if \<not> validateStatus cfg (resp_status r) then
        (let error = status_error cfg endpoint opts r responseData
         in if throwOnError cfg then Thrown (Classified error)
            else Returned (Decoded responseData))
      else Returned (Decoded responseData))"

definition json_syntax_error :: js_error where
  "json_syntax_error = JsError SyntaxErrorC ''SyntaxError'' ''Failed to parse JSON''"

text \<open>The body of the \<^verbatim>\<open>try\<close> block once \<^verbatim>\<open>fetch\<close> has resolved.\<close>

definition handle_response ::
  "config \<Rightarrow> string \<Rightarrow> request_options \<Rightarrow> response \<Rightarrow> outcome" where
  "handle_response cfg endpoint opts r =
     (let contentType = (case map_of (resp_headers r) ''content-type'' of
                           None \<Rightarrow> [] | Some v \<Rightarrow> v)
      in if str_includes contentType ''application/json'' then
           (case resp_json r of
              None \<Rightarrow> Thrown (Foreign json_syntax_error)
            | Some j \<Rightarrow> check_status cfg endpoint opts r j)
         else if str_includes contentType ''text/html''
                 \<or> str_includes contentType ''text/plain'' then
           check_status cfg endpoint opts r (JStr (resp_text r))
         else if str_includes contentType ''text/event-stream'' then
           Returned (RawResponse r)
         else check_status cfg endpoint opts r (JStr (resp_text r)))"

text \<open>The \<^verbatim>\<open>catch\<close> block: what is thrown in place of the exception caught.\<close>

definition on_catch :: "nat \<Rightarrow> string \<Rightarrow> thrown \<Rightarrow> thrown" where
  "on_catch t url error =
     (if instanceof_Error error \<and> thrown_name error = ''AbortError'' then
        Classified (new_TimeoutError t (Some url))
      else if instanceof_TypeError error \<and> str_includes (thrown_message error) ''fetch'' then
        Classified (new_NetworkError (''Network request failed: '' @ thrown_message error)
                      (case error of Foreign e \<Rightarrow> Some e | Classified c \<Rightarrow> None))
      else error)"

text \<open>
  One call of \<^verbatim>\<open>request\<close>. \<open>None\<close> is a promise that never settles. The debug log
  has no part in the outcome and is left out.
\<close>

definition request ::
  "config \<Rightarrow> string \<Rightarrow> request_options \<Rightarrow> fetch_event list \<Rightarrow> outcome option" where
  "request cfg endpoint opts events =
     (let url = request_url cfg endpoint;
          t = effective_timeout cfg opts;
          st = \<lparr> controller_aborted = False, caller_aborted = False \<rparr>
      in case fetch (requestSignal opts) st events of
           None \<Rightarrow> None
         | Some (Rejected e) \<Rightarrow> Some (Thrown (on_catch t url (Foreign e)))
         | Some (Resolved r) \<Rightarrow>
             (case handle_response cfg endpoint opts r of
                Returned v \<Rightarrow> Some (Returned v)
              | Thrown e \<Rightarrow> Some (Thrown (on_catch t url e))))"

section \<open>Retry coordinator (sdk.ts)\<close>

text \<open>
  The test that stops the retries: \<^verbatim>\<open>error instanceof Crawl4AIError && error.status &&
  error.status >= CLIENT_ERROR_MIN && error.status < CLIENT_ERROR_MAX && error.status !==
  RATE_LIMIT_STATUS\<close>.
\<close>

fun client_error :: "thrown \<Rightarrow> bool" where
  "client_error (Classified e) =
     (case status e of
        None \<Rightarrow> False
      | Some st \<Rightarrow> st \<noteq> 0 \<and> CLIENT_ERROR_MIN \<le> st \<and> st < CLIENT_ERROR_MAX
                    \<and> st \<noteq> RATE_LIMIT_STATUS)"
| "client_error (Foreign e) = False"

text \<open>
  \<^verbatim>\<open>error instanceof RateLimitError && error.retryAfter\<close>, giving the number: the test
  is one of truthiness, so it fails on zero and on \<^verbatim>\<open>NaN\<close> as it does on a missing value.
\<close>

fun rate_limit_retryAfter :: "thrown \<Rightarrow> int option" where
  "rate_limit_retryAfter (Classified e) =
     (if name e = RateLimitError then
        (case retryAfter e of
           Some (Num n) \<Rightarrow> if n \<noteq> 0 then Some n else None
         | _ \<Rightarrow> None)
      else None)"
| "rate_limit_retryAfter (Foreign e) = None"

text \<open>
  The delay slept after the failure \<open>error\<close> of attempt number \<open>attempt\<close>. The product
  \<^verbatim>\<open>error.retryAfter * 1000\<close> is rounded as the runtime rounds it.
\<close>

definition backoff_delay :: "config \<Rightarrow> nat \<Rightarrow> thrown \<Rightarrow> int" where
  "backoff_delay cfg attempt error =
     (case rate_limit_retryAfter error of
        Some n \<Rightarrow> to_double (n * 1000)
      | None \<Rightarrow> retryDelay cfg * RETRY_BACKOFF_MULTIPLIER ^ attempt)"

text \<open>
  What one call of \<^verbatim>\<open>requestWithRetry\<close> did: how it ended (\<open>None\<close> when an attempt
  never settled), how many attempts it started and the delays it slept, in order.
\<close>

record retry_run =
  result :: "outcome option"
  attempts :: nat
  sleeps :: "int list"

text \<open>
  The loop \<^verbatim>\<open>for (let attempt = 0; attempt <= this.config.retries; attempt++)\<close>, from
  the given attempt on. \<open>env k\<close> is what happens during the \<^verbatim>\<open>fetch\<close> of attempt \<open>k\<close>.
\<close>

function retry_loop ::
  "config \<Rightarrow> string \<Rightarrow> request_options \<Rightarrow> (nat \<Rightarrow> fetch_event list) \<Rightarrow> nat \<Rightarrow> thrown
     \<Rightarrow> retry_run" where
  "retry_loop cfg endpoint opts env attempt lastError =
     (if attempt \<le> retries cfg then
        (case request cfg endpoint opts (env attempt) of
           None \<Rightarrow> \<lparr> result = None, attempts = 1, sleeps = [] \<rparr>
         | Some (Returned v) \<Rightarrow> \<lparr> result = Some (Returned v), attempts = 1, sleeps = [] \<rparr>
         | Some (Thrown error) \<Rightarrow>
             if client_error error then
               \<lparr> result = Some (Thrown error), attempts = 1, sleeps = [] \<rparr>
             else if attempt < retries cfg then
               (let run = retry_loop cfg endpoint opts env (attempt + 1) error
                in run \<lparr> attempts := attempts run + 1,
                         sleeps := backoff_delay cfg attempt error # sleeps run \<rparr>)
             else
               (let run = retry_loop cfg endpoint opts env (attempt + 1) error
                in run \<lparr> attempts := attempts run + 1 \<rparr>))
      else \<lparr> result = Some (Thrown lastError), attempts = 0, sleeps = [] \<rparr>)"
  by pat_completeness auto
termination
  by (relation "measure (\<lambda>(cfg, endpoint, opts, env, attempt, lastError).
                   retries cfg + 1 - attempt)") auto

declare retry_loop.simps [simp del]

definition requestWithRetry ::
  "config \<Rightarrow> string \<Rightarrow> request_options \<Rightarrow> (nat \<Rightarrow> fetch_event list) \<Rightarrow> retry_run" where
  "requestWithRetry cfg endpoint opts env =
     retry_loop cfg endpoint opts env 0 (Foreign (JsError ErrorC ''Error'' ''No attempts made''))"

text \<open>An environment in which every attempt meets the same events.\<close>

definition always :: "fetch_event list \<Rightarrow> nat \<Rightarrow> fetch_event list" where
  "always events k = events"

section \<open>Stream decoder\<close>

text \<open>
  sdk.ts hands the open response of a \<^verbatim>\<open>text/event-stream\<close> reply back to its caller
  and holds no decoder of its own; the changelog names one (parsing of server-sent
  events for the streaming endpoints). The definitions of this section are therefore
  written from section 4.4 of the specification.
\<close>

definition LF :: char where "LF = CHR 0x0A"
definition CR :: char where "CR = CHR 0x0D"

record stream_event =
  ev_name :: "string option"
  ev_data :: string
  ev_id :: "string option"
  ev_retry :: "string option"

text \<open>
  Modelled from the spec: the blank-line terminator of the stream decoder, which is
  missing from the sources. A line break is LF or CRLF, and a frame is terminated by two
  consecutive line breaks: the text read so far ends a frame when its last character is
  an LF that follows a line break directly, or with only the CR of its own CRLF between.
\<close>

definition ends_frame :: "string \<Rightarrow> bool" where
  "ends_frame seen \<longleftrightarrow>
     startsWith (rev seen) [LF, LF] \<or> startsWith (rev seen) [LF, CR, LF]"

text \<open>
  Modelled from the spec: the scan of the buffer for a complete frame, missing from the
  sources. The buffer is read from its start; the first complete frame (the text up to
  and including its terminator) is split from the rest, and \<open>None\<close> says that the
  buffer holds no complete frame. \<open>seen\<close> is the part of the buffer already read.
\<close>

fun split_frame :: "string \<Rightarrow> string \<Rightarrow> (string \<times> string) option" where
  "split_frame seen [] = None"
| "split_frame seen (c # cs) =
     (if ends_frame (seen @ [c]) then Some (seen @ [c], cs)
      else split_frame (seen @ [c]) cs)"

text \<open>
  Modelled from the spec: the lines of a frame, missing from the sources. The frame is
  cut at every LF, and a CR before the LF belongs to the line break.
\<close>

fun lines_of :: "string \<Rightarrow> string list" where
  "lines_of [] = [[]]"
| "lines_of (c # cs) =
     (if c = LF then [] # lines_of cs
      else (case lines_of cs of [] \<Rightarrow> [[c]] | l # ls \<Rightarrow> (c # l) # ls))"

definition strip_cr :: "string \<Rightarrow> string" where
  "strip_cr l = (if l \<noteq> [] \<and> last l = CR then butlast l else l)"

definition frame_lines :: "string \<Rightarrow> string list" where
  "frame_lines frame = map strip_cr (lines_of frame)"

text \<open>
  Modelled from the spec: the field and the value of a line, missing from the sources. A
  line \<^verbatim>\<open>field:value\<close> gives the field and the value, less one leading space of the
  value; a line with no colon is a field with an empty value. A comment line starts with
  the colon and so has the empty field name, which no field of an event has.
\<close>

definition strip_space :: "string \<Rightarrow> string" where
  "strip_space w = (case w of [] \<Rightarrow> [] | c # cs \<Rightarrow> if c = CHR '' '' then cs else w)"

definition parse_line :: "string \<Rightarrow> string \<times> string" where
  "parse_line l =
     (if CHR '':'' \<in> set l then
        (takeWhile (\<lambda>c. c \<noteq> CHR '':'') l,
         strip_space (tl (dropWhile (\<lambda>c. c \<noteq> CHR '':'') l)))
      else (l, []))"

definition field_values :: "string \<Rightarrow> (string \<times> string) list \<Rightarrow> string list" where
  "field_values k fs = map snd (filter (\<lambda>p. fst p = k) fs)"

definition last_value :: "string \<Rightarrow> (string \<times> string) list \<Rightarrow> string option" where
  "last_value k fs = (case field_values k fs of [] \<Rightarrow> None | v # vs \<Rightarrow> Some (last (v # vs)))"

fun join_lines :: "string list \<Rightarrow> string" where
  "join_lines [] = []"
| "join_lines [v] = v"
| "join_lines (v # w # vs) = v @ [LF] @ join_lines (w # vs)"

text \<open>
  Modelled from the spec: the event of a complete frame, missing from the sources. The
  \<open>data\<close> values of the frame are joined with a line break in their order; \<open>event\<close>,
  \<open>id\<close> and \<open>retry\<close> take the value of their last line; every other field is ignored.
\<close>

definition event_of_fields :: "(string \<times> string) list \<Rightarrow> stream_event" where
  "event_of_fields fs =
     \<lparr> ev_name = last_value ''event'' fs,
       ev_data = join_lines (field_values ''data'' fs),
       ev_id = last_value ''id'' fs,
       ev_retry = last_value ''retry'' fs \<rparr>"

definition parse_frame :: "string \<Rightarrow> stream_event" where
  "parse_frame frame = event_of_fields (map parse_line (frame_lines frame))"

lemma split_frame_shorter:
  "split_frame seen buf = Some (frame, rest) \<Longrightarrow> length rest < length buf"
proof (induction buf arbitrary: seen)
  case Nil
  then show ?case by simp
next
  case (Cons c cs)
  show ?case
  proof (cases "ends_frame (seen @ [c])")
    case True
    with Cons.prems show ?thesis by simp
  next
    case False
    with Cons.prems have "split_frame (seen @ [c]) cs = Some (frame, rest)" by simp
    from Cons.IH [OF this] show ?thesis by simp
  qed
qed

text \<open>
  Modelled from the spec: the decoder's work on its buffer, missing from the sources.
  Every complete frame yields one event and is removed from the buffer; a trailing
  incomplete frame stays buffered.
\<close>

function drain :: "string \<Rightarrow> stream_event list \<times> string" where
  "drain buf =
     (case split_frame [] buf of
        None \<Rightarrow> ([], buf)
      | Some (frame, rest) \<Rightarrow>
          (case drain rest of (events, left) \<Rightarrow> (parse_frame frame # events, left)))"
  by pat_completeness auto
termination
  by (relation "measure length") (auto dest: split_frame_shorter)

declare drain.simps [simp del]

text \<open>
  Modelled from the spec: the decoder over the chunks of a stream, missing from the
  sources. Each chunk is appended to the buffer, and the events of the frames completed
  by it are produced before the next chunk is read. What is still buffered when the
  stream closes yields no event.
\<close>

fun decode_from :: "string \<Rightarrow> string list \<Rightarrow> stream_event list" where
  "decode_from buf [] = []"
| "decode_from buf (chunk # chunks) =
     (case drain (buf @ chunk) of (events, left) \<Rightarrow> events @ decode_from left chunks)"

definition decode_chunks :: "string list \<Rightarrow> stream_event list" where
  "decode_chunks chunks = decode_from [] chunks"

text \<open>A frame as a server writes it: one line \<^verbatim>\<open>field:text\<close> per pair, then a blank line.\<close>

definition render_line :: "string \<times> string \<Rightarrow> string" where
  "render_line p = fst p @ '':'' @ snd p"

definition render_frame :: "(string \<times> string) list \<Rightarrow> string" where
  "render_frame fs = concat (map (\<lambda>p. render_line p @ [LF]) fs) @ [LF]"

text \<open>
  A pair that a line can carry: no colon in the field, no line break in either part, and
  the text does not end in a CR, which would belong to the line break.
\<close>

definition wire_field :: "string \<times> string \<Rightarrow> bool" where
  "wire_field p \<longleftrightarrow>
     CHR '':'' \<notin> set (fst p) \<and> LF \<notin> set (fst p) \<and> LF \<notin> set (snd p)
     \<and> (snd p = [] \<or> last (snd p) \<noteq> CR)"

definition recognized :: "string \<Rightarrow> bool" where
  "recognized k \<longleftrightarrow> k \<in> set [''data'', ''event'', ''id'', ''retry'']"

section \<open>Example inputs\<close>

text \<open>
  The configuration the constructor builds from \<^verbatim>\<open>{ baseUrl: 'http://localhost:11235' }\<close>
  alone, a \<^verbatim>\<open>POST\<close> as \<^verbatim>\<open>crawl\<close> issues it, and some responses of a server.
\<close>

definition example_config :: config where
  "example_config =
     \<lparr> baseUrl = ''http://localhost:11235'', apiToken = [], timeout = 300000, retries = 3,
       retryDelay = 1000, defaultHeaders = [(''Content-Type'', ''application/json'')],
       throwOnError = True, validateStatus = default_validateStatus, debug = False \<rparr>"

definition example_options :: request_options where
  "example_options =
     \<lparr> opt_timeout = None, opt_signal = False, opt_headers = [],
       opt_method = Some ''POST'', opt_body = Some ''{\"urls\":[\"https://example.com\"]}'' \<rparr>"

definition json_response :: "nat \<Rightarrow> string \<Rightarrow> (string \<times> string) list \<Rightarrow> response" where
  "json_response st stText extra =
     \<lparr> resp_status = st, resp_statusText = stText,
       resp_headers = (''content-type'', ''application/json'') # extra,
       resp_text = ''{\"detail\":\"failed\"}'',
       resp_json = Some (JObj [(''detail'', JStr ''failed'')]) \<rparr>"

text \<open>A reply that announces JSON and carries a body that is not JSON.\<close>

definition malformed_response :: response where
  "malformed_response =
     \<lparr> resp_status = 200, resp_statusText = ''OK'',
       resp_headers = [(''content-type'', ''application/json'')],
       resp_text = ''<html>'', resp_json = None \<rparr>"

section \<open>Properties\<close>

lemma array_property_obj:
  "array_property k (JObj kvs) =
     (if property_is_array k (JObj kvs) then Some (the_property k (JObj kvs)) else None)"
proof (cases "map_of kvs k")
  case None
  then show ?thesis by (simp add: array_property_def)
next
  case (Some r)
  then show ?thesis by (cases r) (simp_all add: array_property_def)
qed

lemma property_is_array_has:
  "property_is_array k (JObj kvs) \<Longrightarrow> has_property k (JObj kvs)"
  by (auto split: option.splits json.splits dest: map_of_SomeD intro: rev_image_eqI)

text \<open>
  C7. For every decoded value the normalizer follows the priority rule of the
  specification: an array as it is, then an array-valued \<open>results\<close> property, then an
  array-valued \<open>result\<close> property, then the value wrapped in a one-element array. The
  four examples of the specification are instances.
\<close>

theorem normalizeArrayResponse_priority_rule:
  "normalizeArrayResponse v = normalize_spec v
   \<and> normalizeArrayResponse (JObj [(''results'', JArr [JNum 1, JNum 2])]) = JArr [JNum 1, JNum 2]
   \<and> normalizeArrayResponse (JObj [(''result'', JArr [JNum 1, JNum 2])]) = JArr [JNum 1, JNum 2]
   \<and> normalizeArrayResponse (JArr [JNum 1, JNum 2]) = JArr [JNum 1, JNum 2]
   \<and> normalizeArrayResponse (JObj [(''foo'', JNum 1)]) = JArr [JObj [(''foo'', JNum 1)]]"
proof -
  have general: "normalizeArrayResponse v = normalize_spec v"
  proof (cases v)
    case (JObj kvs)
    show ?thesis
    proof (cases "isApiArrayResponse v")
      case True
      then show ?thesis
        unfolding normalizeArrayResponse_def normalize_spec_def JObj array_property_obj
        by simp
    next
      case False
      then have "\<not> property_is_array ''results'' v" "\<not> property_is_array ''result'' v"
        using property_is_array_has unfolding JObj isApiArrayResponse_def by auto
      with False show ?thesis
        by (simp add: normalizeArrayResponse_def normalize_spec_def JObj)
    qed
  qed (simp_all add: normalizeArrayResponse_def normalize_spec_def isApiArrayResponse_def)
  have ex1: "normalizeArrayResponse (JObj [(''results'', JArr [JNum 1, JNum 2])])
             = JArr [JNum 1, JNum 2]"
    by (simp add: normalizeArrayResponse_def isApiArrayResponse_def array_property_def)
  have ex2: "normalizeArrayResponse (JObj [(''result'', JArr [JNum 1, JNum 2])])
             = JArr [JNum 1, JNum 2]"
    by (simp add: normalizeArrayResponse_def isApiArrayResponse_def array_property_def)
  have ex3: "normalizeArrayResponse (JArr [JNum 1, JNum 2]) = JArr [JNum 1, JNum 2]"
    by (simp add: normalizeArrayResponse_def)
  have ex4: "normalizeArrayResponse (JObj [(''foo'', JNum 1)]) = JArr [JObj [(''foo'', JNum 1)]]"
    by (simp add: normalizeArrayResponse_def isApiArrayResponse_def)
  from general ex1 ex2 ex3 ex4 show ?thesis by blast
qed

theorem normalizeArrayResponse_priority_rule_witness:
  "normalizeArrayResponse (JObj [(''result'', JArr [JStr ''a'']), (''results'', JArr [])])
     = JArr []"
proof -
  have "normalize_spec (JObj [(''result'', JArr [JStr ''a'']), (''results'', JArr [])]) = JArr []"
    by (simp add: normalize_spec_def)
  then show ?thesis
    using normalizeArrayResponse_priority_rule
      [of "JObj [(''result'', JArr [JStr ''a'']), (''results'', JArr [])]"]
    by simp
qed

subsection \<open>The transport executor on a response\<close>

lemma on_catch_classified: "on_catch t url (Classified e) = Classified e"
  by (cases "name e") (simp_all add: on_catch_def)

lemma request_json_status_error:
  assumes "throwOnError cfg" and "\<not> validateStatus cfg (resp_status r)"
      and "map_of (resp_headers r) ''content-type'' = Some ''application/json''"
      and "resp_json r = Some j"
  shows "request cfg endpoint opts (Responds r # es)
           = Some (Thrown (Classified (status_error cfg endpoint opts r j)))"
  using assms
  by (simp add: request_def handle_response_def check_status_def on_catch_classified)

lemma request_malformed_json:
  assumes "map_of (resp_headers r) ''content-type'' = Some ''application/json''"
      and "resp_json r = None"
  shows "request cfg endpoint opts (Responds r # es) = Some (Thrown (Foreign json_syntax_error))"
  using assms
  by (simp add: request_def handle_response_def on_catch_def json_syntax_error_def)

lemmas error_constructors =
  new_RequestValidationError_def new_AuthError_def new_NotFoundError_def
  new_RateLimitError_def new_ServerError_def new_Crawl4AIError_def

lemma createHttpError_status:
  "status (createHttpError st stText msg d headers) = Some st"
  by (simp add: createHttpError_def Let_def error_constructors)

lemma createHttpError_name:
  "name (createHttpError st stText msg d headers) =
     (if st = 400 then RequestValidationError
      else if st = 401 \<or> st = 403 then AuthError
      else if st = 404 then NotFoundError
      else if st = 429 then RateLimitError
      else if st = 500 \<or> st = 502 \<or> st = 503 \<or> st = 504 then ServerError
      else Crawl4AIError)"
  by (simp add: createHttpError_def Let_def error_constructors)


lemma status_error_fields:
  "status (status_error cfg endpoint opts r j) = Some (resp_status r)"
  "name (status_error cfg endpoint opts r j)
     = name (createHttpError (resp_status r) (resp_statusText r) None (Some j)
               (Some (resp_headers r)))"
  "retryAfter (status_error cfg endpoint opts r j)
     = retryAfter (createHttpError (resp_status r) (resp_statusText r) None (Some j)
                     (Some (resp_headers r)))"
  by (simp_all add: status_error_def createHttpError_status)

text \<open>The example server: every attempt is answered with the same JSON error reply.\<close>

lemma example_request_status_error:
  assumes "400 \<le> st"
  shows "request example_config ''/crawl'' example_options
           (always [Responds (json_response st stText extra)] k)
         = Some (Thrown (Classified (status_error example_config ''/crawl'' example_options
                   (json_response st stText extra) (JObj [(''detail'', JStr ''failed'')]))))"
  using assms
  by (simp add: always_def request_json_status_error example_config_def json_response_def
        default_validateStatus_def CLIENT_ERROR_MIN_def)

lemma example_request_malformed:
  "request example_config ''/crawl'' example_options (always [Responds malformed_response] k)
     = Some (Thrown (Foreign json_syntax_error))"
  by (simp add: always_def request_malformed_json malformed_response_def)

subsection \<open>The retry loop\<close>

lemma retry_loop_past_end:
  "retries cfg < a \<Longrightarrow>
   retry_loop cfg endpoint opts env a lastError
     = \<lparr> result = Some (Thrown lastError), attempts = 0, sleeps = [] \<rparr>"
  by (simp add: retry_loop.simps [of cfg endpoint opts env a lastError])

lemma retry_loop_stop:
  assumes "a \<le> retries cfg"
      and "request cfg endpoint opts (env a) = Some (Thrown error)"
      and "client_error error"
  shows "retry_loop cfg endpoint opts env a lastError
           = \<lparr> result = Some (Thrown error), attempts = 1, sleeps = [] \<rparr>"
  using assms by (simp add: retry_loop.simps [of cfg endpoint opts env a lastError])

lemma retry_loop_retry:
  assumes "a < retries cfg"
      and "request cfg endpoint opts (env a) = Some (Thrown error)"
      and "\<not> client_error error"
  shows "retry_loop cfg endpoint opts env a lastError
           = (retry_loop cfg endpoint opts env (a + 1) error)
               \<lparr> attempts := attempts (retry_loop cfg endpoint opts env (a + 1) error) + 1,
                 sleeps := backoff_delay cfg a error
                             # sleeps (retry_loop cfg endpoint opts env (a + 1) error) \<rparr>"
  using assms by (simp add: retry_loop.simps [of cfg endpoint opts env a lastError] Let_def)

lemma retry_loop_last:
  assumes "a = retries cfg"
      and "request cfg endpoint opts (env a) = Some (Thrown error)"
      and "\<not> client_error error"
  shows "retry_loop cfg endpoint opts env a lastError
           = \<lparr> result = Some (Thrown error), attempts = 1, sleeps = [] \<rparr>"
  using assms
  by (simp add: retry_loop.simps [of cfg endpoint opts env "retries cfg" lastError] Let_def
        retry_loop_past_end)

text \<open>
  When every attempt from \<open>a\<close> on fails with an error the loop retries, the loop runs to
  the last attempt, sleeps after each attempt but the last, and throws the last error.
\<close>

lemma retry_loop_all_fail:
  assumes "\<forall>k. a \<le> k \<and> k \<le> retries cfg \<longrightarrow>
             request cfg endpoint opts (env k) = Some (Thrown (err k)) \<and> \<not> client_error (err k)"
      and "a \<le> retries cfg"
  shows "retry_loop cfg endpoint opts env a lastError
           = \<lparr> result = Some (Thrown (err (retries cfg))),
               attempts = retries cfg + 1 - a,
               sleeps = map (\<lambda>k. backoff_delay cfg k (err k)) [a..<retries cfg] \<rparr>"
  using assms
proof (induction "retries cfg - a" arbitrary: a lastError)
  case 0
  then have a: "a = retries cfg" by simp
  from 0 have "request cfg endpoint opts (env a) = Some (Thrown (err a))" "\<not> client_error (err a)"
    by auto
  with a show ?case by (simp add: retry_loop_last)
next
  case (Suc n)
  then have lt: "a < retries cfg" by simp
  from Suc.prems lt have here:
    "request cfg endpoint opts (env a) = Some (Thrown (err a))" "\<not> client_error (err a)"
    by auto
  have rest: "retry_loop cfg endpoint opts env (a + 1) (err a)
           = \<lparr> result = Some (Thrown (err (retries cfg))),
               attempts = retries cfg + 1 - (a + 1),
               sleeps = map (\<lambda>k. backoff_delay cfg k (err k)) [a + 1..<retries cfg] \<rparr>"
    using Suc.hyps(1) [of "a + 1" "err a"] Suc.hyps(2) Suc.prems lt by auto
  have step: "retry_loop cfg endpoint opts env a lastError
           = (retry_loop cfg endpoint opts env (a + 1) (err a))
               \<lparr> attempts := attempts (retry_loop cfg endpoint opts env (a + 1) (err a)) + 1,
                 sleeps := backoff_delay cfg a (err a)
                             # sleeps (retry_loop cfg endpoint opts env (a + 1) (err a)) \<rparr>"
    using lt here by (rule retry_loop_retry)
  show ?case
    using lt unfolding step rest by (simp add: upt_conv_Cons)
qed

lemma upt_3: "[0..<3] = [0, 1, 2]"
  by (simp add: upt_conv_Cons)

text \<open>
  C5. A classified failure whose status lies in 400..499 and is not 429 ends the call at
  once: the retry coordinator makes one attempt, rethrows that error and never sleeps.
\<close>

theorem requestWithRetry_client_error_once:
  assumes "request cfg endpoint opts (env 0) = Some (Thrown (Classified e))"
      and "status e = Some st" and "400 \<le> st" and "st < 500" and "st \<noteq> 429"
  shows "requestWithRetry cfg endpoint opts env
           = \<lparr> result = Some (Thrown (Classified e)), attempts = 1, sleeps = [] \<rparr>"
proof -
  have "client_error (Classified e)"
    using assms(2-5)
    by (simp add: CLIENT_ERROR_MIN_def CLIENT_ERROR_MAX_def RATE_LIMIT_STATUS_def)
  with assms(1) show ?thesis
    unfolding requestWithRetry_def by (simp add: retry_loop_stop)
qed

theorem requestWithRetry_client_error_once_witness:
  "requestWithRetry example_config ''/crawl'' example_options
     (always [Responds (json_response 404 ''Not Found'' [])])
   = \<lparr> result = Some (Thrown (Classified (status_error example_config ''/crawl'' example_options
                  (json_response 404 ''Not Found'' []) (JObj [(''detail'', JStr ''failed'')])))),
       attempts = 1, sleeps = [] \<rparr>"
proof -
  have thrown: "request example_config ''/crawl'' example_options
                  (always [Responds (json_response 404 ''Not Found'' [])] 0)
                = Some (Thrown (Classified (status_error example_config ''/crawl''
                     example_options (json_response 404 ''Not Found'' [])
                     (JObj [(''detail'', JStr ''failed'')]))))"
    by (rule example_request_status_error) simp
  have st: "status (status_error example_config ''/crawl'' example_options
                      (json_response 404 ''Not Found'' []) (JObj [(''detail'', JStr ''failed'')]))
            = Some 404"
    by (simp add: status_error_fields json_response_def)
  show ?thesis
    using requestWithRetry_client_error_once
            [of example_config "''/crawl''" example_options
                "always [Responds (json_response 404 ''Not Found'' [])]"
                "status_error example_config ''/crawl'' example_options
                   (json_response 404 ''Not Found'' []) (JObj [(''detail'', JStr ''failed'')])"
                404]
          thrown st
    by simp
qed

text \<open>
  C3. With three retries, a base delay of 1000 ms and every attempt failing with the
  server error of an HTTP 500, the retry coordinator makes four attempts, sleeps 1000,
  2000 and 4000 ms between them and rethrows the last error. With no retries it makes one
  attempt and never sleeps, whatever the attempt does.
\<close>

theorem requestWithRetry_persistent_500:
  "(retries cfg = 3 \<and> retryDelay cfg = 1000
      \<and> (\<forall>k\<le>3. request cfg endpoint opts (env k) = Some (Thrown (Classified (e k)))
                 \<and> name (e k) = ServerError \<and> status (e k) = Some 500)
     \<longrightarrow> requestWithRetry cfg endpoint opts env
           = \<lparr> result = Some (Thrown (Classified (e 3))), attempts = 4,
               sleeps = [1000, 2000, 4000] \<rparr>)
   \<and> (retries cfg = 0
     \<longrightarrow> attempts (requestWithRetry cfg endpoint opts env) = 1
         \<and> sleeps (requestWithRetry cfg endpoint opts env) = [])"
proof (intro conjI impI)
  assume h: "retries cfg = 3 \<and> retryDelay cfg = 1000
      \<and> (\<forall>k\<le>3. request cfg endpoint opts (env k) = Some (Thrown (Classified (e k)))
                 \<and> name (e k) = ServerError \<and> status (e k) = Some 500)"
  then have fails: "\<forall>k. 0 \<le> k \<and> k \<le> retries cfg \<longrightarrow>
      request cfg endpoint opts (env k) = Some (Thrown (Classified (e k)))
      \<and> \<not> client_error (Classified (e k))"
    by (simp add: CLIENT_ERROR_MAX_def)
  have delays: "backoff_delay cfg k (Classified (e k)) = 1000 * 2 ^ k" if "k \<le> 3" for k
    using h that by (simp add: backoff_delay_def RETRY_BACKOFF_MULTIPLIER_def)
  have "retry_loop cfg endpoint opts env 0 lastError
          = \<lparr> result = Some (Thrown (Classified (e (retries cfg)))),
              attempts = retries cfg + 1 - 0,
              sleeps = map (\<lambda>k. backoff_delay cfg k (Classified (e k))) [0..<retries cfg] \<rparr>"
    for lastError
    using retry_loop_all_fail [of 0 cfg endpoint opts env "\<lambda>k. Classified (e k)" lastError] fails
    by simp
  then show "requestWithRetry cfg endpoint opts env
           = \<lparr> result = Some (Thrown (Classified (e 3))), attempts = 4,
               sleeps = [1000, 2000, 4000] \<rparr>"
    using h by (simp add: requestWithRetry_def upt_3 delays)
next
  assume z: "retries cfg = 0"
  show "attempts (requestWithRetry cfg endpoint opts env) = 1"
    unfolding requestWithRetry_def using z
    by (simp add: retry_loop.simps [of cfg endpoint opts env 0] retry_loop_past_end Let_def
          split: option.split outcome.split)
  show "sleeps (requestWithRetry cfg endpoint opts env) = []"
    unfolding requestWithRetry_def using z
    by (simp add: retry_loop.simps [of cfg endpoint opts env 0] retry_loop_past_end Let_def
          split: option.split outcome.split)
qed

theorem requestWithRetry_persistent_500_witness:
  "requestWithRetry example_config ''/crawl'' example_options
     (always [Responds (json_response 500 ''Internal Server Error'' [])])
   = \<lparr> result = Some (Thrown (Classified (status_error example_config ''/crawl'' example_options
                  (json_response 500 ''Internal Server Error'' [])
                  (JObj [(''detail'', JStr ''failed'')])))),
       attempts = 4, sleeps = [1000, 2000, 4000] \<rparr>
   \<and> attempts (requestWithRetry (example_config \<lparr> retries := 0 \<rparr>) ''/crawl'' example_options
                 (always [Responds (json_response 500 ''Internal Server Error'' [])])) = 1
   \<and> sleeps (requestWithRetry (example_config \<lparr> retries := 0 \<rparr>) ''/crawl'' example_options
                (always [Responds (json_response 500 ''Internal Server Error'' [])])) = []"
proof -
  let ?r = "json_response 500 ''Internal Server Error'' []"
  let ?e = "status_error example_config ''/crawl'' example_options ?r
              (JObj [(''detail'', JStr ''failed'')])"
  have cfg: "retries example_config = 3" "retryDelay example_config = 1000"
    by (simp_all add: example_config_def)
  have thrown: "request example_config ''/crawl'' example_options (always [Responds ?r] k)
                  = Some (Thrown (Classified ?e))" for k
    by (rule example_request_status_error) simp
  have kind: "name ?e = ServerError" "status ?e = Some 500"
    by (simp_all add: status_error_fields createHttpError_name json_response_def)
  have zero: "retries (example_config \<lparr> retries := 0 \<rparr>) = 0"
    by simp
  show ?thesis
    using requestWithRetry_persistent_500
            [of example_config "''/crawl''" example_options "always [Responds ?r]" "\<lambda>k. ?e"]
          requestWithRetry_persistent_500
            [of "example_config \<lparr> retries := 0 \<rparr>" "''/crawl''" example_options
                "always [Responds ?r]" "\<lambda>k. ?e"]
          cfg thrown kind zero
    by simp
qed

lemma request_fails_foreign:
  assumes "n \<noteq> ''AbortError''" and "c \<noteq> TypeErrorC"
  shows "request cfg endpoint opts (Fails (JsError c n m) # es)
           = Some (Thrown (Foreign (JsError c n m)))"
  using assms by (simp add: request_def on_catch_def)




text \<open>
  C1, as the code has it. An exception that is not one of the SDK's errors does not pass
  the no-retry test, which asks for a \<^verbatim>\<open>Crawl4AIError\<close> with a 4xx status: it is
  retried like a transient failure. When every attempt raises such an exception, the
  coordinator makes \<open>retries + 1\<close> attempts, sleeps \<open>retryDelay * 2 ^ k\<close> after attempt
  \<open>k\<close>, and rethrows the last one.
\<close>

theorem requestWithRetry_unclassified_retried:
  assumes "\<forall>k\<le>retries cfg. request cfg endpoint opts (env k) = Some (Thrown (Foreign (f k)))"
  shows "requestWithRetry cfg endpoint opts env
           = \<lparr> result = Some (Thrown (Foreign (f (retries cfg)))),
               attempts = retries cfg + 1,
               sleeps = map (\<lambda>k. retryDelay cfg * 2 ^ k) [0..<retries cfg] \<rparr>"
proof -
  have "\<forall>k. 0 \<le> k \<and> k \<le> retries cfg \<longrightarrow>
          request cfg endpoint opts (env k) = Some (Thrown (Foreign (f k)))
          \<and> \<not> client_error (Foreign (f k))"
    using assms by simp
  then have "retry_loop cfg endpoint opts env 0 lastError
          = \<lparr> result = Some (Thrown (Foreign (f (retries cfg)))),
              attempts = retries cfg + 1 - 0,
              sleeps = map (\<lambda>k. backoff_delay cfg k (Foreign (f k))) [0..<retries cfg] \<rparr>"
    for lastError
    using retry_loop_all_fail [of 0 cfg endpoint opts env "\<lambda>k. Foreign (f k)" lastError]
    by simp
  then show ?thesis
    by (simp add: requestWithRetry_def backoff_delay_def RETRY_BACKOFF_MULTIPLIER_def)
qed

theorem requestWithRetry_unclassified_retried_witness:
  "requestWithRetry (example_config \<lparr> retries := 1 \<rparr>) ''/crawl'' example_options
     (always [Fails (JsError ErrorC ''Error'' ''boom'')])
   = \<lparr> result = Some (Thrown (Foreign (JsError ErrorC ''Error'' ''boom''))),
       attempts = 2, sleeps = [1000] \<rparr>"
proof -
  have thrown: "\<forall>k\<le>retries (example_config \<lparr> retries := 1 \<rparr>).
      request (example_config \<lparr> retries := 1 \<rparr>) ''/crawl'' example_options
        (always [Fails (JsError ErrorC ''Error'' ''boom'')] k)
      = Some (Thrown (Foreign (JsError ErrorC ''Error'' ''boom'')))"
    by (simp add: always_def request_fails_foreign)
  have one: "[0..<1] = [0::nat]"
    by simp
  show ?thesis
    using requestWithRetry_unclassified_retried
            [of "example_config \<lparr> retries := 1 \<rparr>" "''/crawl''" example_options
                "always [Fails (JsError ErrorC ''Error'' ''boom'')]"
                "\<lambda>k. JsError ErrorC ''Error'' ''boom''"]
          thrown
    by (simp add: example_config_def)
qed

text \<open>
  C1 as stated fails: a reply that announces JSON with a body that is not JSON makes
  \<^verbatim>\<open>response.json()\<close> raise a \<^verbatim>\<open>SyntaxError\<close>, and under the default configuration the
  coordinator makes four attempts and sleeps three times before it lets the error out.
\<close>

theorem requestWithRetry_unclassified_counterexample:
  "requestWithRetry example_config ''/crawl'' example_options
     (always [Responds malformed_response])
   = \<lparr> result = Some (Thrown (Foreign json_syntax_error)), attempts = 4,
       sleeps = [1000, 2000, 4000] \<rparr>"
proof -
  have "\<forall>k. 0 \<le> k \<and> k \<le> retries example_config \<longrightarrow>
          request example_config ''/crawl'' example_options
            (always [Responds malformed_response] k) = Some (Thrown (Foreign json_syntax_error))
          \<and> \<not> client_error (Foreign json_syntax_error)"
    by (simp add: example_request_malformed)
  then have "retry_loop example_config ''/crawl'' example_options
               (always [Responds malformed_response]) 0 lastError
          = \<lparr> result = Some (Thrown (Foreign json_syntax_error)),
              attempts = retries example_config + 1 - 0,
              sleeps = map (\<lambda>k. backoff_delay example_config k (Foreign json_syntax_error))
                         [0..<retries example_config] \<rparr>"
    for lastError
    using retry_loop_all_fail [of 0 example_config "''/crawl''" example_options
            "always [Responds malformed_response]" "\<lambda>k. Foreign json_syntax_error" lastError]
    by simp
  then show ?thesis
    by (simp add: requestWithRetry_def backoff_delay_def RETRY_BACKOFF_MULTIPLIER_def
          example_config_def upt_3)
qed

subsection \<open>Decimal text and \<open>parseInt\<close>\<close>









text \<open>Beyond \<open>2 ^ 53\<close> the digits are rounded: \<open>2 ^ 53 + 1\<close> is read as \<open>2 ^ 53\<close>.\<close>

lemma parseInt_rounds: "parseInt ''9007199254740993'' = Num 9007199254740992"
  by (simp add: parseInt_def is_whitespace_def is_digit_def digit_value_def to_double_def
        bit_length.simps Let_def)




subsection \<open>Aborts\<close>

lemma startsWith_append: "startsWith (u @ b) u"
  by (induction u) simp_all

lemma str_includes_here: "str_includes (u @ b) u"
  using startsWith_append [of u b] by (cases "u @ b") auto

lemma str_includes_later: "str_includes s u \<Longrightarrow> str_includes (a @ s) u"
  by (induction a) simp_all

lemma str_includes_middle: "str_includes (a @ u @ b) u"
  by (simp add: str_includes_here str_includes_later)

lemma on_catch_abort:
  "on_catch t url (Foreign abort_error) = Classified (new_TimeoutError t (Some url))"
  by (simp add: on_catch_def abort_error_def)

lemma new_TimeoutError_fields:
  "name (new_TimeoutError t url) = TimeoutError"
  "timeout_ms (new_TimeoutError t url) = Some t"
  "status (new_TimeoutError t url) = None"
  by (simp_all add: new_TimeoutError_def new_NetworkError_def new_Crawl4AIError_def Let_def)

lemma new_TimeoutError_message:
  "message (new_TimeoutError t (Some url))
     = (if url \<noteq> [] then ''Request to '' @ url @ '' timed out after '' @ string_of_nat t @ ''ms''
        else ''Request timed out after '' @ string_of_nat t @ ''ms'')"
  by (simp add: new_TimeoutError_def new_NetworkError_def new_Crawl4AIError_def Let_def)

lemma new_TimeoutError_names_url:
  "str_includes (message (new_TimeoutError t (Some url))) url"
proof (cases "url = []")
  case True
  then show ?thesis
    by (simp add: new_TimeoutError_message)
next
  case False
  then show ?thesis
    unfolding new_TimeoutError_message
    using str_includes_middle [of "''Request to ''" url "'' timed out after '' @ string_of_nat t @ ''ms''"]
    by simp
qed

text \<open>
  While the caller's signal is the one \<^verbatim>\<open>fetch\<close> holds and has not aborted, a firing
  timer changes nothing.
\<close>

lemma fetch_caller_signal_filter:
  "\<not> caller_aborted st \<Longrightarrow> \<not> caller_aborted st' \<Longrightarrow>
   fetch CallerSignal st events = fetch CallerSignal st' (filter (\<lambda>ev. ev \<noteq> TimerFires) events)"
proof (induction events arbitrary: st st')
  case Nil
  show ?case by simp
next
  case (Cons ev events)
  show ?case
  proof (cases ev)
    case TimerFires
    then show ?thesis
      using Cons.IH [of "st \<lparr> controller_aborted := True \<rparr>" st'] Cons.prems by simp
  next
    case (CallerAborts reason)
    then show ?thesis by simp
  next
    case (Responds r)
    then show ?thesis by simp
  next
    case (Fails e)
    then show ?thesis by simp
  qed
qed

lemma fetch_caller_signal_no_abort:
  "\<not> caller_aborted st \<Longrightarrow> \<forall>reason. CallerAborts reason \<notin> set events \<Longrightarrow>
   fetch CallerSignal st events = Some (Rejected e) \<Longrightarrow> Fails e \<in> set events"
proof (induction events arbitrary: st)
  case Nil
  then show ?case by simp
next
  case (Cons ev events)
  show ?case
  proof (cases ev)
    case TimerFires
    then show ?thesis
      using Cons.IH [of "st \<lparr> controller_aborted := True \<rparr>"] Cons.prems by simp
  next
    case (CallerAborts reason)
    with Cons.prems show ?thesis by simp
  next
    case (Responds r)
    with Cons.prems show ?thesis by simp
  next
    case (Fails x)
    with Cons.prems show ?thesis by simp
  qed
qed

lemma filter_timers_then_abort:
  "filter (\<lambda>ev. ev \<noteq> TimerFires) (replicate n TimerFires @ CallerAborts reason # es)
     = CallerAborts reason # filter (\<lambda>ev. ev \<noteq> TimerFires) es"
  by (induction n) simp_all

lemma filter_timers_only:
  "filter (\<lambda>ev. ev \<noteq> TimerFires) (replicate n TimerFires) = []"
  by (induction n) simp_all

text \<open>
  C8. When no signal was supplied and the deadline timer fires while the request is in
  flight, \<^verbatim>\<open>request\<close> throws a \<^verbatim>\<open>TimeoutError\<close>, not a plain \<^verbatim>\<open>NetworkError\<close>: its
  \<^verbatim>\<open>timeout\<close> is the timeout in force for the call (the per-call value, or else the
  client's), and its message names the address made of the base address and the endpoint.
\<close>

theorem request_deadline_abort_TimeoutError:
  assumes "\<not> opt_signal opts"
  shows "let t = (case opt_timeout opts of None \<Rightarrow> timeout cfg | Some t' \<Rightarrow> t');
             url = baseUrl cfg @ endpoint;
             e = new_TimeoutError t (Some url)
         in request cfg endpoint opts (TimerFires # es) = Some (Thrown (Classified e))
            \<and> name e = TimeoutError \<and> name e \<noteq> NetworkError
            \<and> timeout_ms e = Some t
            \<and> str_includes (message e) url"
proof -
  let ?t = "effective_timeout cfg opts"
  let ?url = "request_url cfg endpoint"
  have "request cfg endpoint opts (TimerFires # es)
          = Some (Thrown (Classified (new_TimeoutError ?t (Some ?url))))"
    using assms by (simp add: request_def requestSignal_def on_catch_abort)
  moreover have "str_includes (message (new_TimeoutError ?t (Some ?url))) ?url"
    by (rule new_TimeoutError_names_url)
  ultimately show ?thesis
    by (simp add: new_TimeoutError_fields effective_timeout_def request_url_def Let_def)
qed

theorem request_deadline_abort_TimeoutError_witness:
  "request example_config ''/crawl'' (example_options \<lparr> opt_timeout := Some 1 \<rparr>) [TimerFires]
     = Some (Thrown (Classified (new_TimeoutError 1 (Some ''http://localhost:11235/crawl''))))
   \<and> message (new_TimeoutError 1 (Some ''http://localhost:11235/crawl''))
     = ''Request to http://localhost:11235/crawl timed out after 1ms''"
proof -
  have "\<not> opt_signal (example_options \<lparr> opt_timeout := Some 1 \<rparr>)"
    by (simp add: example_options_def)
  from request_deadline_abort_TimeoutError [OF this, of example_config "''/crawl''" "[]"]
  have "request example_config ''/crawl'' (example_options \<lparr> opt_timeout := Some 1 \<rparr>)
          [TimerFires]
        = Some (Thrown (Classified (new_TimeoutError 1 (Some ''http://localhost:11235/crawl''))))"
    by (simp add: example_config_def Let_def)
  moreover have "message (new_TimeoutError 1 (Some ''http://localhost:11235/crawl''))
     = ''Request to http://localhost:11235/crawl timed out after 1ms''"
    by (simp add: new_TimeoutError_message string_of_nat.simps [of "Suc 0"] digit_char_def)
  ultimately show ?thesis by simp
qed

text \<open>
  C10, as the code has it. When the caller supplied a signal, the deadline timer aborts a
  controller whose signal \<^verbatim>\<open>fetch\<close> does not hold: the outcome of \<^verbatim>\<open>request\<close> is the same
  with every firing of the timer left out, and a request that has met nothing but
  expired deadlines is still pending. The request is aborted only when the supplied
  signal fires, and \<^verbatim>\<open>fetch\<close> then rejects with the reason of that signal. The catch
  block throws a \<^verbatim>\<open>TimeoutError\<close> with the timeout in force, whether or not a deadline
  had expired, when the reason is an \<^verbatim>\<open>Error\<close> named \<^verbatim>\<open>AbortError\<close>, as after \<^verbatim>\<open>abort()\<close>;
  a \<^verbatim>\<open>NetworkError\<close> when the reason is a \<^verbatim>\<open>TypeError\<close> whose message holds
  \<^verbatim>\<open>fetch\<close>; and the reason itself in every other case.
\<close>

theorem request_caller_signal_deadline_inert:
  assumes "opt_signal opts"
  shows "request cfg endpoint opts events
           = request cfg endpoint opts (filter (\<lambda>ev. ev \<noteq> TimerFires) events)
       \<and> request cfg endpoint opts (replicate n TimerFires) = None
       \<and> ((\<forall>reason. CallerAborts reason \<notin> set events)
            \<longrightarrow> (\<forall>e. fetch (requestSignal opts)
                       \<lparr> controller_aborted = False, caller_aborted = False \<rparr> events
                      = Some (Rejected e)
                   \<longrightarrow> Fails e \<in> set events))
       \<and> request cfg endpoint opts (replicate n TimerFires @ CallerAborts (JsError c nm m) # es)
           = Some (Thrown
               (if c \<noteq> NotAnError \<and> nm = ''AbortError'' then
                  Classified (new_TimeoutError
                    (case opt_timeout opts of None \<Rightarrow> timeout cfg | Some t \<Rightarrow> t)
                    (Some (baseUrl cfg @ endpoint)))
                else if c = TypeErrorC \<and> str_includes m ''fetch'' then
                  Classified (new_NetworkError (''Network request failed: '' @ m)
                    (Some (JsError c nm m)))
                else Foreign (JsError c nm m)))
       \<and> timeout_ms (new_TimeoutError
            (case opt_timeout opts of None \<Rightarrow> timeout cfg | Some t \<Rightarrow> t)
            (Some (baseUrl cfg @ endpoint)))
           = Some (case opt_timeout opts of None \<Rightarrow> timeout cfg | Some t \<Rightarrow> t)"
proof -
  let ?st = "\<lparr> controller_aborted = False, caller_aborted = False \<rparr>"
  have sig: "requestSignal opts = CallerSignal"
    using assms by (simp add: requestSignal_def)
  have same: "fetch CallerSignal ?st evs
                = fetch CallerSignal ?st (filter (\<lambda>ev. ev \<noteq> TimerFires) evs)" for evs
    by (rule fetch_caller_signal_filter) simp_all
  have inert: "request cfg endpoint opts evs
           = request cfg endpoint opts (filter (\<lambda>ev. ev \<noteq> TimerFires) evs)" for evs
    unfolding request_def sig Let_def using same [of evs] by simp
  have pending: "request cfg endpoint opts (replicate n TimerFires) = None"
    unfolding inert [of "replicate n TimerFires"] filter_timers_only
    by (simp add: request_def)
  have only: "(\<forall>reason. CallerAborts reason \<notin> set events)
            \<longrightarrow> (\<forall>e. fetch (requestSignal opts) ?st events = Some (Rejected e)
                   \<longrightarrow> Fails e \<in> set events)"
    unfolding sig using fetch_caller_signal_no_abort [of ?st events] by simp
  have abort: "request cfg endpoint opts
                 (replicate n TimerFires @ CallerAborts (JsError c nm m) # es)
           = Some (Thrown
               (if c \<noteq> NotAnError \<and> nm = ''AbortError'' then
                  Classified (new_TimeoutError
                    (case opt_timeout opts of None \<Rightarrow> timeout cfg | Some t \<Rightarrow> t)
                    (Some (baseUrl cfg @ endpoint)))
                else if c = TypeErrorC \<and> str_includes m ''fetch'' then
                  Classified (new_NetworkError (''Network request failed: '' @ m)
                    (Some (JsError c nm m)))
                else Foreign (JsError c nm m)))"
    unfolding inert [of "replicate n TimerFires @ CallerAborts (JsError c nm m) # es"]
      filter_timers_then_abort
    by (simp add: request_def sig on_catch_def effective_timeout_def request_url_def)
  from inert [of events] pending only abort show ?thesis
    by (simp add: new_TimeoutError_fields)
qed

theorem request_caller_signal_deadline_inert_witness:
  "request example_config ''/crawl'' (example_options \<lparr> opt_signal := True \<rparr>)
     [TimerFires, Responds (json_response 200 ''OK'' [])]
   = Some (Returned (Decoded (JObj [(''detail'', JStr ''failed'')])))
   \<and> request example_config ''/crawl'' (example_options \<lparr> opt_signal := True \<rparr>)
       [TimerFires, CallerAborts abort_error]
     = Some (Thrown (Classified (new_TimeoutError 300000 (Some ''http://localhost:11235/crawl''))))"
proof -
  let ?opts = "example_options \<lparr> opt_signal := True \<rparr>"
  have sup: "opt_signal ?opts"
    by simp
  have ok: "request example_config ''/crawl'' ?opts [Responds (json_response 200 ''OK'' [])]
              = Some (Returned (Decoded (JObj [(''detail'', JStr ''failed'')])))"
    by (simp add: request_def handle_response_def check_status_def json_response_def
          example_config_def default_validateStatus_def CLIENT_ERROR_MIN_def)
  have none: "\<forall>reason. CallerAborts reason
                \<notin> set [TimerFires, Responds (json_response 200 ''OK'' [])]"
    by simp
  have a: "request example_config ''/crawl'' ?opts
             [TimerFires, Responds (json_response 200 ''OK'' [])]
           = request example_config ''/crawl'' ?opts [Responds (json_response 200 ''OK'' [])]"
    using request_caller_signal_deadline_inert
            [OF sup, of example_config "''/crawl''"
               "[TimerFires, Responds (json_response 200 ''OK'' [])]" 1
               DOMExceptionC "''AbortError''" "''The operation was aborted.''" "[]"]
          none
    by simp
  have b: "request example_config ''/crawl'' ?opts [TimerFires, CallerAborts abort_error]
     = Some (Thrown (Classified (new_TimeoutError 300000 (Some ''http://localhost:11235/crawl''))))"
    using request_caller_signal_deadline_inert
            [OF sup, of example_config "''/crawl''" "[]" 1
               DOMExceptionC "''AbortError''" "''The operation was aborted.''" "[]"]
    by (simp add: example_config_def example_options_def abort_error_def)
  from a b ok show ?thesis by simp
qed

text \<open>
  C10 as stated fails when the supplied signal is one made by \<^verbatim>\<open>AbortSignal.timeout\<close>:
  its reason is a \<^verbatim>\<open>DOMException\<close> named \<^verbatim>\<open>TimeoutError\<close>, which the catch block
  rethrows as it is. What reaches the caller is not the SDK's \<^verbatim>\<open>TimeoutError\<close> and
  carries no timeout of the client.
\<close>

theorem request_caller_abort_reason_counterexample:
  "request example_config ''/crawl'' (example_options \<lparr> opt_signal := True \<rparr>)
     [CallerAborts (JsError DOMExceptionC ''TimeoutError'' ''The operation timed out.'')]
   = Some (Thrown (Foreign (JsError DOMExceptionC ''TimeoutError'' ''The operation timed out.'')))"
  by (simp add: request_def requestSignal_def on_catch_def)

text \<open>
  C2, as the code has it. With \<open>throwOnError\<close> off, a response that fails the status
  predicate is handled as an accepted one: \<^verbatim>\<open>request\<close> returns the decoded body, and the
  error it built is neither thrown nor returned.
\<close>

theorem request_swallowed_status_returns_body:
  assumes "\<not> throwOnError cfg"
      and "\<not> validateStatus cfg (resp_status r)"
      and "fetch (requestSignal opts) \<lparr> controller_aborted = False, caller_aborted = False \<rparr>
             events = Some (Resolved r)"
  shows "request cfg endpoint opts events
           = request (cfg \<lparr> validateStatus := (\<lambda>st. True) \<rparr>) endpoint opts events
       \<and> (\<forall>e. request cfg endpoint opts events \<noteq> Some (Thrown (Classified e)))
       \<and> (\<forall>e. request cfg endpoint opts events \<noteq> Some (Returned (ErrorObject e)))
       \<and> (\<forall>j. map_of (resp_headers r) ''content-type'' = Some ''application/json''
                \<and> resp_json r = Some j
              \<longrightarrow> request cfg endpoint opts events = Some (Returned (Decoded j)))"
proof -
  have body: "check_status cfg endpoint opts r d = Returned (Decoded d)" for d
    using assms(1) by (simp add: check_status_def Let_def)
  have body': "check_status (cfg \<lparr> validateStatus := (\<lambda>st. True) \<rparr>) endpoint opts r d
                 = Returned (Decoded d)" for d
    by (simp add: check_status_def)
  have same: "handle_response cfg endpoint opts r
                = handle_response (cfg \<lparr> validateStatus := (\<lambda>st. True) \<rparr>) endpoint opts r"
    by (simp add: handle_response_def body body' Let_def split: option.split)
  have shape: "handle_response cfg endpoint opts r = Thrown (Foreign json_syntax_error)
               \<or> handle_response cfg endpoint opts r = Returned (RawResponse r)
               \<or> (\<exists>d. handle_response cfg endpoint opts r = Returned (Decoded d))"
    by (simp add: handle_response_def body Let_def split: option.split)
  have unchanged: "on_catch t url (Foreign json_syntax_error) = Foreign json_syntax_error" for t url
    by (simp add: on_catch_def json_syntax_error_def)
  have c1: "request cfg endpoint opts events
           = request (cfg \<lparr> validateStatus := (\<lambda>st. True) \<rparr>) endpoint opts events"
    using assms(3)
    by (simp add: request_def same effective_timeout_def request_url_def
          split: option.split outcome.split)
  have c2: "\<forall>e. request cfg endpoint opts events \<noteq> Some (Thrown (Classified e))"
    using assms(3) shape by (auto simp add: request_def unchanged)
  have c3: "\<forall>e. request cfg endpoint opts events \<noteq> Some (Returned (ErrorObject e))"
    using assms(3) shape by (auto simp add: request_def unchanged)
  have c4: "\<forall>j. map_of (resp_headers r) ''content-type'' = Some ''application/json''
                \<and> resp_json r = Some j
              \<longrightarrow> request cfg endpoint opts events = Some (Returned (Decoded j))"
    using assms(3) by (simp add: request_def handle_response_def body Let_def)
  from c1 c2 c3 c4 show ?thesis by blast
qed

theorem request_swallowed_status_returns_body_witness:
  "request (example_config \<lparr> throwOnError := False \<rparr>) ''/crawl'' example_options
     [Responds (json_response 404 ''Not Found'' [])]
   = Some (Returned (Decoded (JObj [(''detail'', JStr ''failed'')])))"
proof -
  let ?cfg = "example_config \<lparr> throwOnError := False \<rparr>"
  let ?r = "json_response 404 ''Not Found'' []"
  have a: "\<not> throwOnError ?cfg"
    by simp
  have b: "\<not> validateStatus ?cfg (resp_status ?r)"
    by (simp add: example_config_def json_response_def default_validateStatus_def
          CLIENT_ERROR_MIN_def)
  have c: "fetch (requestSignal example_options)
             \<lparr> controller_aborted = False, caller_aborted = False \<rparr> [Responds ?r]
           = Some (Resolved ?r)"
    by simp
  have d: "map_of (resp_headers ?r) ''content-type'' = Some ''application/json''
           \<and> resp_json ?r = Some (JObj [(''detail'', JStr ''failed'')])"
    by (simp add: json_response_def)
  show ?thesis
    using request_swallowed_status_returns_body [OF a b c, of "''/crawl''"] d by blast
qed

text \<open>
  C2 as stated fails: under \<open>throwOnError = False\<close> a reply with status 500 gives back its
  decoded body, not the \<^verbatim>\<open>ServerError\<close> built from it.
\<close>

theorem request_swallowed_error_counterexample:
  "request (example_config \<lparr> throwOnError := False \<rparr>) ''/crawl'' example_options
     [Responds (json_response 500 ''Internal Server Error'' [])]
   = Some (Returned (Decoded (JObj [(''detail'', JStr ''failed'')])))
   \<and> request (example_config \<lparr> throwOnError := False \<rparr>) ''/crawl'' example_options
       [Responds (json_response 500 ''Internal Server Error'' [])]
     \<noteq> Some (Returned (ErrorObject
          (status_error (example_config \<lparr> throwOnError := False \<rparr>) ''/crawl'' example_options
             (json_response 500 ''Internal Server Error'' [])
             (JObj [(''detail'', JStr ''failed'')]))))"
  by (simp add: request_def handle_response_def check_status_def json_response_def
        example_config_def default_validateStatus_def CLIENT_ERROR_MIN_def)

text \<open>
  C6 at the status 501. \<^verbatim>\<open>createHttpError\<close> gives the class \<^verbatim>\<open>ServerError\<close>, which
  errors.ts documents as "Server errors (5xx)", for 500, 502, 503 and 504 only: a 501
  becomes a plain \<^verbatim>\<open>Crawl4AIError\<close>, while the neighbouring 500 and 502 become
  \<^verbatim>\<open>ServerError\<close>s.
\<close>

theorem createHttpError_501_generic:
  "name (createHttpError 501 ''Not Implemented'' None (Some (JStr [])) (Some []))
     = Crawl4AIError
   \<and> name (createHttpError 500 ''Internal Server Error'' None (Some (JStr [])) (Some []))
     = ServerError
   \<and> name (createHttpError 502 ''Bad Gateway'' None (Some (JStr [])) (Some []))
     = ServerError"
  by (simp add: createHttpError_name)

subsection \<open>The stream decoder\<close>

lemma split_frame_append:
  "split_frame seen buf = Some (frame, rest) \<Longrightarrow>
   split_frame seen (buf @ extra) = Some (frame, rest @ extra)"
proof (induction buf arbitrary: seen)
  case Nil
  then show ?case by simp
next
  case (Cons c cs)
  show ?case
  proof (cases "ends_frame (seen @ [c])")
    case True
    with Cons.prems show ?thesis by simp
  next
    case False
    with Cons.prems have "split_frame (seen @ [c]) cs = Some (frame, rest)" by simp
    from Cons.IH [OF this] False show ?thesis by simp
  qed
qed

lemma drain_incomplete: "split_frame [] buf = None \<Longrightarrow> drain buf = ([], buf)"
  by (simp add: drain.simps [of buf])

lemma drain_frame:
  "split_frame [] buf = Some (frame, rest) \<Longrightarrow>
   drain buf = (parse_frame frame # fst (drain rest), snd (drain rest))"
  by (simp add: drain.simps [of buf] split: prod.split)

text \<open>Draining a buffer and then what is left with extra text is draining both at once.\<close>

lemma drain_append:
  "drain (buf @ extra)
     = (fst (drain buf) @ fst (drain (snd (drain buf) @ extra)),
        snd (drain (snd (drain buf) @ extra)))"
proof (induction buf rule: drain.induct)
  case (1 buf)
  show ?case
  proof (cases "split_frame [] buf")
    case None
    then show ?thesis by (simp add: drain_incomplete)
  next
    case (Some fr)
    obtain frame rest where fr: "fr = (frame, rest)" by (cases fr)
    have here: "split_frame [] buf = Some (frame, rest)"
      using Some fr by simp
    have there: "split_frame [] (buf @ extra) = Some (frame, rest @ extra)"
      using here by (rule split_frame_append)
    have ih: "drain (rest @ extra)
                = (fst (drain rest) @ fst (drain (snd (drain rest) @ extra)),
                   snd (drain (snd (drain rest) @ extra)))"
      using "1.IH" [OF here refl] .
    show ?thesis
      unfolding drain_frame [OF there] drain_frame [OF here] ih by simp
  qed
qed

lemma drain_left_incomplete: "split_frame [] (snd (drain buf)) = None"
proof (induction buf rule: drain.induct)
  case (1 buf)
  show ?case
  proof (cases "split_frame [] buf")
    case None
    then show ?thesis by (simp add: drain_incomplete)
  next
    case (Some fr)
    obtain frame rest where fr: "fr = (frame, rest)" by (cases fr)
    have here: "split_frame [] buf = Some (frame, rest)"
      using Some fr by simp
    show ?thesis
      unfolding drain_frame [OF here] using "1.IH" [OF here refl] by simp
  qed
qed

lemma decode_from_drain:
  "split_frame [] buf = None \<Longrightarrow> decode_from buf chunks = fst (drain (buf @ concat chunks))"
proof (induction chunks arbitrary: buf)
  case Nil
  then show ?case by (simp add: drain_incomplete)
next
  case (Cons chunk chunks)
  have "decode_from (snd (drain (buf @ chunk))) chunks
          = fst (drain (snd (drain (buf @ chunk)) @ concat chunks))"
    by (rule Cons.IH) (rule drain_left_incomplete)
  moreover have "drain ((buf @ chunk) @ concat chunks)
      = (fst (drain (buf @ chunk)) @ fst (drain (snd (drain (buf @ chunk)) @ concat chunks)),
         snd (drain (snd (drain (buf @ chunk)) @ concat chunks)))"
    by (rule drain_append)
  ultimately show ?case
    by (simp add: case_prod_beta)
qed

lemma decode_chunks_whole: "decode_chunks chunks = fst (drain (concat chunks))"
  using decode_from_drain [of "[]" chunks] by (simp add: decode_chunks_def)

lemma lines_of_line:
  "LF \<notin> set l \<Longrightarrow> lines_of (l @ LF # rest) = l # lines_of rest"
  by (induction l) auto

lemma LF_not_colon: "LF \<noteq> CHR '':''" "CR \<noteq> CHR '':''"
  by (simp_all add: LF_def CR_def)

lemma render_line_no_LF: "wire_field p \<Longrightarrow> LF \<notin> set (render_line p)"
  using LF_not_colon by (auto simp add: wire_field_def render_line_def)

lemma lines_of_render_frame:
  "\<forall>p\<in>set fs. wire_field p \<Longrightarrow>
   lines_of (render_frame fs) = map render_line fs @ [[], []]"
proof (induction fs)
  case Nil
  show ?case by (simp add: render_frame_def)
next
  case (Cons p fs)
  then have "LF \<notin> set (render_line p)"
    by (simp add: render_line_no_LF)
  then have "lines_of (render_line p @ LF # render_frame fs)
               = render_line p # lines_of (render_frame fs)"
    by (rule lines_of_line)
  with Cons show ?case
    by (simp add: render_frame_def)
qed

lemma strip_cr_render_line: "wire_field p \<Longrightarrow> strip_cr (render_line p) = render_line p"
  using LF_not_colon by (auto simp add: wire_field_def render_line_def strip_cr_def)

lemma takeWhile_to_colon:
  "CHR '':'' \<notin> set f \<Longrightarrow> takeWhile (\<lambda>c. c \<noteq> CHR '':'') (f @ CHR '':'' # w) = f"
  by (induction f) auto

lemma dropWhile_to_colon:
  "CHR '':'' \<notin> set f \<Longrightarrow> dropWhile (\<lambda>c. c \<noteq> CHR '':'') (f @ CHR '':'' # w) = CHR '':'' # w"
  by (induction f) auto

lemma parse_line_render_line:
  "wire_field p \<Longrightarrow> parse_line (render_line p) = (fst p, strip_space (snd p))"
  by (simp add: wire_field_def render_line_def parse_line_def takeWhile_to_colon
        dropWhile_to_colon)

lemma parse_line_empty: "parse_line [] = ([], [])"
  by (simp add: parse_line_def)

lemma fields_of_render_frame:
  assumes "\<forall>p\<in>set fs. wire_field p"
  shows "map parse_line (frame_lines (render_frame fs))
           = map (\<lambda>p. (fst p, strip_space (snd p))) fs @ [([], []), ([], [])]"
proof -
  have "map strip_cr (map render_line fs) = map render_line fs"
    using assms by (induction fs) (simp_all add: strip_cr_render_line)
  moreover have "map parse_line (map render_line fs)
                   = map (\<lambda>p. (fst p, strip_space (snd p))) fs"
    using assms by (induction fs) (simp_all add: parse_line_render_line)
  ultimately show ?thesis
    using assms
    by (simp add: frame_lines_def lines_of_render_frame strip_cr_def parse_line_empty)
qed

lemma field_values_blank:
  "k \<noteq> [] \<Longrightarrow> field_values k (fs @ [([], []), ([], [])]) = field_values k fs"
  by (auto simp add: field_values_def)

lemma event_of_fields_blank:
  "event_of_fields (fs @ [([], []), ([], [])]) = event_of_fields fs"
  by (simp add: event_of_fields_def last_value_def field_values_blank)

lemma parse_frame_render_frame:
  "\<forall>p\<in>set fs. wire_field p \<Longrightarrow>
   parse_frame (render_frame fs)
     = event_of_fields (map (\<lambda>p. (fst p, strip_space (snd p))) fs)"
  by (simp add: parse_frame_def fields_of_render_frame event_of_fields_blank)

lemma field_values_skip:
  "f \<noteq> k \<Longrightarrow> field_values k (xs @ (f, v) # ys) = field_values k (xs @ ys)"
  by (simp add: field_values_def)

lemma event_of_fields_skip:
  "\<not> recognized f \<Longrightarrow> event_of_fields (xs @ (f, v) # ys) = event_of_fields (xs @ ys)"
proof -
  assume "\<not> recognized f"
  then have "f \<noteq> ''data''" "f \<noteq> ''event''" "f \<noteq> ''id''" "f \<noteq> ''retry''"
    by (auto simp add: recognized_def)
  then show ?thesis
    by (simp add: event_of_fields_def last_value_def field_values_skip)
qed

text \<open>
  C9. The stream decoder does not depend on where the chunks are cut: the chunks of any
  split of an input give the events of the unsplit input. Within a frame the values of
  the \<open>data\<close> lines are joined by one line break each, in their order, and a line with an
  unrecognized field name leaves the event of the frame as it is without that line.
\<close>

theorem stream_decoder_chunk_invariant:
  "(concat chunks = input \<longrightarrow> decode_chunks chunks = decode_chunks [input])
   \<and> ((\<forall>p\<in>set fs. wire_field p)
        \<longrightarrow> ev_data (parse_frame (render_frame fs))
              = join_lines (map (\<lambda>p. strip_space (snd p)) (filter (\<lambda>p. fst p = ''data'') fs)))
   \<and> ((\<forall>p\<in>set (fs1 @ q # fs2). wire_field p) \<and> \<not> recognized (fst q)
        \<longrightarrow> parse_frame (render_frame (fs1 @ q # fs2)) = parse_frame (render_frame (fs1 @ fs2)))"
proof (intro conjI impI)
  assume "concat chunks = input"
  then show "decode_chunks chunks = decode_chunks [input]"
    by (simp add: decode_chunks_whole)
next
  assume wf: "\<forall>p\<in>set fs. wire_field p"
  have "field_values ''data'' (map (\<lambda>p. (fst p, strip_space (snd p))) fs)
          = map (\<lambda>p. strip_space (snd p)) (filter (\<lambda>p. fst p = ''data'') fs)"
    by (induction fs) (simp_all add: field_values_def)
  then show "ev_data (parse_frame (render_frame fs))
        = join_lines (map (\<lambda>p. strip_space (snd p)) (filter (\<lambda>p. fst p = ''data'') fs))"
    using wf by (simp add: parse_frame_render_frame event_of_fields_def)
next
  assume h: "(\<forall>p\<in>set (fs1 @ q # fs2). wire_field p) \<and> \<not> recognized (fst q)"
  then have wf: "\<forall>p\<in>set (fs1 @ q # fs2). wire_field p" and wf': "\<forall>p\<in>set (fs1 @ fs2). wire_field p"
    by simp_all
  have "event_of_fields (map (\<lambda>p. (fst p, strip_space (snd p))) fs1
                           @ (fst q, strip_space (snd q))
                             # map (\<lambda>p. (fst p, strip_space (snd p))) fs2)
          = event_of_fields (map (\<lambda>p. (fst p, strip_space (snd p))) fs1
                               @ map (\<lambda>p. (fst p, strip_space (snd p))) fs2)"
    using h by (simp add: event_of_fields_skip)
  then show "parse_frame (render_frame (fs1 @ q # fs2)) = parse_frame (render_frame (fs1 @ fs2))"
    unfolding parse_frame_render_frame [OF wf] parse_frame_render_frame [OF wf'] by simp
qed

theorem stream_decoder_chunk_invariant_witness:
  "decode_chunks [''data: a\<newline>da'', ''ta: b\<newline>'', ''\<newline>event: e\<newline>'']
     = decode_chunks [''data: a\<newline>data: b\<newline>\<newline>event: e\<newline>'']
   \<and> decode_chunks [''data: a\<newline>data: b\<newline>\<newline>event: e\<newline>'']
     = [\<lparr> ev_name = None, ev_data = ''a\<newline>b'', ev_id = None, ev_retry = None \<rparr>]
   \<and> ev_data (parse_frame (render_frame [(''data'', '' a''), (''note'', '' x''), (''data'', ''b'')]))
       = ''a\<newline>b''
   \<and> parse_frame (render_frame [(''data'', '' a''), (''note'', '' x''), (''data'', ''b'')])
       = parse_frame (render_frame [(''data'', '' a''), (''data'', ''b'')])"
proof -
  have split: "concat [''data: a\<newline>da'', ''ta: b\<newline>'', ''\<newline>event: e\<newline>''] = ''data: a\<newline>data: b\<newline>\<newline>event: e\<newline>''"
    by simp
  have wf: "\<forall>p\<in>set [(''data'', '' a''), (''note'', '' x''), (''data'', ''b'')]. wire_field p"
    by (simp add: wire_field_def LF_def CR_def)
  have wf': "\<forall>p\<in>set ([(''data'', '' a'')] @ (''note'', '' x'') # [(''data'', ''b'')]). wire_field p"
    using wf by simp
  have unknown: "\<not> recognized (fst (''note'', '' x''))"
    by (simp add: recognized_def)
  have joined: "join_lines (map (\<lambda>p. strip_space (snd p))
                  (filter (\<lambda>p. fst p = ''data'') [(''data'', '' a''), (''note'', '' x''), (''data'', ''b'')]))
                = ''a\<newline>b''"
    by (simp add: strip_space_def LF_def)
  note inst = stream_decoder_chunk_invariant
            [of "[''data: a\<newline>da'', ''ta: b\<newline>'', ''\<newline>event: e\<newline>'']" "''data: a\<newline>data: b\<newline>\<newline>event: e\<newline>''"
                "[(''data'', '' a''), (''note'', '' x''), (''data'', ''b'')]"
                "[(''data'', '' a'')]" "(''note'', '' x'')" "[(''data'', ''b'')]"]
  have a: "decode_chunks [''data: a\<newline>da'', ''ta: b\<newline>'', ''\<newline>event: e\<newline>''] = decode_chunks [''data: a\<newline>data: b\<newline>\<newline>event: e\<newline>'']"
    using inst split by blast
  have b: "ev_data (parse_frame (render_frame [(''data'', '' a''), (''note'', '' x''), (''data'', ''b'')]))
       = ''a\<newline>b''"
    using inst wf joined by simp
  have c: "parse_frame (render_frame ([(''data'', '' a'')] @ (''note'', '' x'') # [(''data'', ''b'')]))
       = parse_frame (render_frame ([(''data'', '' a'')] @ [(''data'', ''b'')]))"
    using inst wf' unknown by blast
  have d: "decode_chunks [''data: a\<newline>data: b\<newline>\<newline>event: e\<newline>'']
     = [\<lparr> ev_name = None, ev_data = ''a\<newline>b'', ev_id = None, ev_retry = None \<rparr>]"
    by code_simp
  from a b c d show ?thesis by simp
qed

end
